theory Spec2Isabelle
  imports Main
begin

section \<open>PDB sanitizers of GEODES\<close>

text \<open>
  The repository owns three line filters over PDB text: \<open>clean_pdb_for_dssp\<close>
  (app.py), \<open>clean_pdb_minimal\<close> and the second half of \<open>clean_pdb_for_mkdssp\<close>
  (robust_pdb_cleaner.py). Each reads a file with \<open>readlines()\<close>, builds the list
  \<open>cleaned_lines\<close> and writes it with \<open>writelines\<close>. A line is a \<open>string\<close>; every
  prefix the code tests is ASCII, so the test reads the same on bytes and on code
  points. The functions named after the cleaners map the lines read to the list
  \<open>cleaned_lines\<close> handed to \<open>writelines\<close>, or to the exception raised. The file that
  \<open>writelines\<close> produces is the concatenation of that list; the \<open>_file\<close> functions
  below map the text of the input file to the text of the output file. Failures of
  opening, reading or writing a file are not modelled.
\<close>

subsection \<open>Prefix tests\<close>

text \<open>\<open>line.startswith(p)\<close> for one prefix, and for a tuple of prefixes.\<close>

definition startswith :: "string \<Rightarrow> string \<Rightarrow> bool" where
  "startswith line p = (take (length p) line = p)"

fun startswith_any :: "string \<Rightarrow> string list \<Rightarrow> bool" where
  "startswith_any line [] = False"
| "startswith_any line (p # ps) = (startswith line p \<or> startswith_any line ps)"

subsection \<open>Literals and errors\<close>

definition HEADER_LINE :: string where
  "HEADER_LINE = ''HEADER    PROTEIN                                 01-JAN-00   XXXX'' @ [CHR 0x0A]"

definition END_LINE :: string where
  "END_LINE = ''END'' @ [CHR 0x0A]"

datatype error = ValueError string

subsection \<open>Minimal mode: \<open>clean_pdb_for_dssp\<close> and \<open>clean_pdb_minimal\<close>\<close>

text \<open>
  The loop \<open>for line in lines\<close> of both minimal cleaners, on the pair
  \<open>(cleaned_lines, has_atoms)\<close>.
\<close>

fun keep_atoms :: "string list \<Rightarrow> string list \<times> bool \<Rightarrow> string list \<times> bool" where
  "keep_atoms [] st = st"
| "keep_atoms (line # lines) (cleaned_lines, has_atoms) =
     (if startswith_any line [''ATOM  '', ''HETATM'']
      then keep_atoms lines (cleaned_lines @ [line], True)
      else keep_atoms lines (cleaned_lines, has_atoms))"

definition clean_pdb_for_dssp :: "string list \<Rightarrow> error + string list" where
  "clean_pdb_for_dssp lines =
     (case keep_atoms lines ([] @ [HEADER_LINE], False) of
        (cleaned_lines, has_atoms) \<Rightarrow>
          if \<not> has_atoms then Inl (ValueError ''PDB file contains no ATOM records!'')
          else Inr (cleaned_lines @ [END_LINE]))"

definition clean_pdb_minimal :: "string list \<Rightarrow> error + string list" where
  "clean_pdb_minimal lines =
     (case keep_atoms lines ([] @ [HEADER_LINE], False) of
        (cleaned_lines, has_atoms) \<Rightarrow>
          if \<not> has_atoms then Inl (ValueError ''No ATOM records found in PDB file!'')
          else Inr (cleaned_lines @ [END_LINE]))"

subsection \<open>Files: \<open>readlines\<close> and \<open>writelines\<close>\<close>

text \<open>
  The text of a file is a \<open>string\<close>, with line ends already translated to the newline
  character as Python's text mode does. \<open>f.readlines()\<close> cuts the text after each
  newline and keeps the newline in the line; only the last line can lack one.
  \<open>split_lines cur rest\<close> is the scan with the line read so far in \<open>cur\<close>.
  \<open>f.writelines(lines)\<close> writes the strings one after the other and adds nothing
  between them.
\<close>

fun split_lines :: "string \<Rightarrow> string \<Rightarrow> string list" where
  "split_lines cur [] = (if cur = [] then [] else [cur])"
| "split_lines cur (c # cs) =
     (if c = CHR 0x0A then (cur @ [c]) # split_lines [] cs else split_lines (cur @ [c]) cs)"

definition readlines :: "string \<Rightarrow> string list" where
  "readlines content = split_lines [] content"

definition writelines :: "string list \<Rightarrow> string" where
  "writelines lines = concat lines"

text \<open>
  A line that ends with its only newline: what \<open>readlines\<close> returns for every
  line but, possibly, the last.
\<close>

definition terminated :: "string \<Rightarrow> bool" where
  "terminated l = (l \<noteq> [] \<and> last l = CHR 0x0A \<and> CHR 0x0A \<notin> set (butlast l))"

text \<open>
  The minimal cleaners from the text of the file at \<open>input_path\<close> to the text of the
  file at \<open>output_path\<close>: lines 22 to 45 of app.py, lines 91 to 113 of
  robust_pdb_cleaner.py. The exception is raised before the output is opened.
\<close>

definition clean_pdb_for_dssp_file :: "string \<Rightarrow> error + string" where
  "clean_pdb_for_dssp_file content =
     (case clean_pdb_for_dssp (readlines content) of
        Inl e \<Rightarrow> Inl e
      | Inr cleaned_lines \<Rightarrow> Inr (writelines cleaned_lines))"

definition clean_pdb_minimal_file :: "string \<Rightarrow> error + string" where
  "clean_pdb_minimal_file content =
     (case clean_pdb_minimal (readlines content) of
        Inl e \<Rightarrow> Inl e
      | Inr cleaned_lines \<Rightarrow> Inr (writelines cleaned_lines))"

subsection \<open>Permissive mode: the line filter of \<open>clean_pdb_for_mkdssp\<close>\<close>

text \<open>
  \<open>clean_pdb_for_mkdssp\<close> first lets Biopython parse and rewrite the file (an external
  library, not modelled), then reads the rewritten file back and filters its lines.
  \<open>filter_records\<close> is that loop on the pair \<open>(cleaned_lines, has_header)\<close>;
  \<open>clean_pdb_for_mkdssp\<close> below is the stage from the \<open>readlines()\<close> of the rewritten
  file to the lines written. Nothing in this stage raises.
\<close>

fun filter_records :: "string list \<Rightarrow> string list \<times> bool \<Rightarrow> string list \<times> bool" where
  "filter_records [] st = st"
| "filter_records (line # lines) (cleaned_lines, has_header) =
     (if startswith line ''HEADER''
      then filter_records lines (cleaned_lines @ [line], True)
      else if startswith_any line [''ATOM'', ''HETATM'', ''TER'', ''END'', ''MODEL'', ''ENDMDL'']
      then filter_records lines (cleaned_lines @ [line], has_header)
      else if startswith_any line [''CRYST1'', ''ORIGX'', ''SCALE'', ''MTRIX'']
      then filter_records lines (cleaned_lines @ [line], has_header)
      else filter_records lines (cleaned_lines, has_header))"

definition ensure_header :: "string list \<times> bool \<Rightarrow> string list" where
  "ensure_header st =
     (case st of (cleaned_lines, has_header) \<Rightarrow>
        if \<not> has_header then HEADER_LINE # cleaned_lines else cleaned_lines)"

definition ensure_end :: "string list \<Rightarrow> string list" where
  "ensure_end cleaned_lines =
     (if cleaned_lines = [] \<or> \<not> startswith (last cleaned_lines) ''END''
      then cleaned_lines @ [END_LINE] else cleaned_lines)"

definition clean_pdb_for_mkdssp :: "string list \<Rightarrow> string list" where
  "clean_pdb_for_mkdssp lines = ensure_end (ensure_header (filter_records lines ([], False)))"

subsection \<open>The batch loop of the Run Analysis button (app.py)\<close>

text \<open>
  An uploaded file \<open>f\<close> has a name \<open>f.name\<close> and a content \<open>f.getbuffer()\<close>, here the
  lines that \<open>readlines()\<close> returns once the content is saved to \<open>raw_dir\<close>. The three
  working directories are maps from file names to file contents, emptied before the
  loop; \<open>errors\<close> collects the \<open>st.error\<close> reports of the loop, one per file whose
  processing raised.
\<close>

record uploaded_file =
  name :: string
  getbuffer :: "string list"

record batch =
  raw_dir :: "string \<rightharpoonup> string list"
  input_dir :: "string \<rightharpoonup> string list"
  processed_count :: nat
  errors :: "(string \<times> error) list"

definition fresh_dirs :: batch where
  "fresh_dirs = \<lparr>raw_dir = Map.empty, input_dir = Map.empty, processed_count = 0, errors = []\<rparr>"

text \<open>
  One iteration of \<open>for i, f in enumerate(uploaded_files)\<close>: save the raw file, clean
  it into \<open>input_dir\<close> and count it; on an exception report it and go on with the next
  file. \<open>clean_pdb_for_dssp\<close> raises before it opens its output, so a failed file
  leaves \<open>input_dir\<close> as it was.
\<close>

definition process_file :: "uploaded_file \<Rightarrow> batch \<Rightarrow> batch" where
  "process_file f b =
     (let b1 = b\<lparr>raw_dir := (raw_dir b)(name f \<mapsto> getbuffer f)\<rparr> in
      case clean_pdb_for_dssp (getbuffer f) of
        Inr cleaned_lines \<Rightarrow>
          b1\<lparr>input_dir := (input_dir b1)(name f \<mapsto> cleaned_lines),
             processed_count := processed_count b1 + 1\<rparr>
      | Inl e \<Rightarrow> b1\<lparr>errors := errors b1 @ [(name f, e)]\<rparr>)"

fun process_files :: "uploaded_file list \<Rightarrow> batch \<Rightarrow> batch" where
  "process_files [] b = b"
| "process_files (f # fs) b = process_files fs (process_file f b)"

text \<open>
  After the loop: \<open>st.stop()\<close> when nothing was processed; otherwise the configuration
  is parsed (\<open>None\<close> stands for \<open>ast.literal_eval\<close> raising, which the outer handler
  reports) and \<open>calc_all\<close> is called on \<open>input_dir\<close>.
\<close>

datatype 'c outcome =
    Stopped "(string \<times> error) list"
  | AnalysisError "(string \<times> error) list"
  | CalcAll "string \<rightharpoonup> string list" 'c "(string \<times> error) list"

definition run_analysis :: "uploaded_file list \<Rightarrow> 'c option \<Rightarrow> 'c outcome" where
  "run_analysis uploaded_files config =
     (let b = process_files uploaded_files fresh_dirs in
      if processed_count b = 0 then Stopped (errors b)
      else case config of
             None \<Rightarrow> AnalysisError (errors b)
           | Some parsed \<Rightarrow> CalcAll (input_dir b) parsed (errors b))"

subsection \<open>Record kinds and the Sanitized Document\<close>

text \<open>
  The tests of the two loops as predicates on a line: \<open>is_coordinate\<close> is the test of
  the minimal cleaners, \<open>is_retained\<close> the three branches of the permissive filter
  that append the line.
\<close>

definition is_coordinate :: "string \<Rightarrow> bool" where
  "is_coordinate line = startswith_any line [''ATOM  '', ''HETATM'']"

definition is_retained :: "string \<Rightarrow> bool" where
  "is_retained line =
     (startswith line ''HEADER''
      \<or> startswith_any line [''ATOM'', ''HETATM'', ''TER'', ''END'', ''MODEL'', ''ENDMDL'']
      \<or> startswith_any line [''CRYST1'', ''ORIGX'', ''SCALE'', ''MTRIX''])"

text \<open>
  The record kinds of the specification that its invariants name, by the prefix tests
  of the code. A \<open>HEADER\<close> record begins with \<open>HEADER\<close>. \<open>is_END\<close> holds of every
  line that begins with \<open>END\<close> and is not an \<open>ENDMDL\<close> record, which the specification
  and the filter's own tuple list as a kind of its own; so it holds of every \<open>END\<close>
  record of the specification, and a line that fails it is not one.
\<close>

definition is_HEADER :: "string \<Rightarrow> bool" where
  "is_HEADER line = startswith line ''HEADER''"

definition is_END :: "string \<Rightarrow> bool" where
  "is_END line = (startswith line ''END'' \<and> \<not> startswith line ''ENDMDL'')"

text \<open>
  The Sanitized Document of the specification, in its words: exactly one \<open>HEADER\<close>
  record, first in the sequence; at least one coordinate record; exactly one \<open>END\<close>
  record, last in the sequence.
\<close>

definition sanitized_document :: "string list \<Rightarrow> bool" where
  "sanitized_document doc =
     (doc \<noteq> []
      \<and> length (filter is_HEADER doc) = 1 \<and> is_HEADER (hd doc)
      \<and> filter is_coordinate doc \<noteq> []
      \<and> length (filter is_END doc) = 1 \<and> is_END (last doc))"

section \<open>Properties\<close>

subsection \<open>The loops as filters\<close>

lemma keep_atoms_filter:
  "keep_atoms lines (acc, b) = (acc @ filter is_coordinate lines, b \<or> filter is_coordinate lines \<noteq> [])"
  by (induction lines arbitrary: acc b) (simp_all add: is_coordinate_def)

lemma filter_records_filter:
  "filter_records lines (acc, b) =
     (acc @ filter is_retained lines, b \<or> filter is_HEADER lines \<noteq> [])"
  by (induction lines arbitrary: acc b) (auto simp: is_retained_def is_HEADER_def)

lemma clean_pdb_for_dssp_eq:
  "clean_pdb_for_dssp lines =
     (if filter is_coordinate lines = [] then Inl (ValueError ''PDB file contains no ATOM records!'')
      else Inr (HEADER_LINE # filter is_coordinate lines @ [END_LINE]))"
  by (simp add: clean_pdb_for_dssp_def keep_atoms_filter)

lemma clean_pdb_minimal_eq:
  "clean_pdb_minimal lines =
     (if filter is_coordinate lines = [] then Inl (ValueError ''No ATOM records found in PDB file!'')
      else Inr (HEADER_LINE # filter is_coordinate lines @ [END_LINE]))"
  by (simp add: clean_pdb_minimal_def keep_atoms_filter)

lemma HEADER_LINE_kind [simp]:
  "\<not> is_coordinate HEADER_LINE" "is_HEADER HEADER_LINE" "\<not> is_END HEADER_LINE"
  "\<not> startswith HEADER_LINE ''END''"
  by (simp_all add: is_coordinate_def is_HEADER_def is_END_def HEADER_LINE_def startswith_def)

lemma END_LINE_kind [simp]:
  "\<not> is_coordinate END_LINE" "\<not> is_HEADER END_LINE" "is_END END_LINE"
  "startswith END_LINE ''END''"
  by (simp_all add: is_coordinate_def is_HEADER_def is_END_def END_LINE_def startswith_def)

lemma startswith_split: "startswith l p \<Longrightarrow> \<exists>s. l = p @ s"
  unfolding startswith_def by (metis append_take_drop_id)

lemma coordinate_kind:
  assumes "is_coordinate l"
  shows "is_retained l" "\<not> is_HEADER l" "\<not> startswith l ''END''" "\<not> is_END l"
proof -
  from assms have "startswith l ''ATOM  '' \<or> startswith l ''HETATM''"
    by (simp add: is_coordinate_def)
  then obtain s where l: "l = ''ATOM  '' @ s \<or> l = ''HETATM'' @ s"
    by (auto dest: startswith_split)
  from l show "is_retained l" by (auto simp: is_retained_def startswith_def)
  from l show "\<not> is_HEADER l" by (auto simp: is_HEADER_def startswith_def)
  from l show "\<not> startswith l ''END''" by (auto simp: startswith_def)
  then show "\<not> is_END l" by (simp add: is_END_def)
qed

lemma clean_pdb_for_mkdssp_eq:
  "clean_pdb_for_mkdssp lines =
     ensure_end ((if filter is_HEADER lines = [] then [HEADER_LINE] else []) @ filter is_retained lines)"
  by (simp add: clean_pdb_for_mkdssp_def filter_records_filter ensure_header_def)

subsection \<open>Facts about the permissive filter\<close>

lemma header_retained: "is_HEADER l \<Longrightarrow> is_retained l"
  by (simp add: is_HEADER_def is_retained_def)

lemma retained_and_kind [simp]:
  "(is_retained l \<and> is_HEADER l) = is_HEADER l"
  "(is_retained l \<and> is_coordinate l) = is_coordinate l"
  by (auto simp: header_retained coordinate_kind)

lemma filter_HEADER_retained:
  "filter is_HEADER (filter is_retained lines) = filter is_HEADER lines"
  by simp

lemma ENDMDL_END:
  assumes "startswith l ''ENDMDL''"
  shows "startswith l ''END''"
proof -
  from assms obtain s where "l = ''ENDMDL'' @ s" by (auto dest: startswith_split)
  then show ?thesis by (simp add: startswith_def)
qed

lemma clean_pdb_for_mkdssp_shape:
  "clean_pdb_for_mkdssp lines =
     (if filter is_HEADER lines = [] then [HEADER_LINE] else []) @ filter is_retained lines
       @ (if filter is_retained lines \<noteq> [] \<and> startswith (last (filter is_retained lines)) ''END''
          then [] else [END_LINE])"
proof (cases "filter is_retained lines = []")
  case True
  have "filter is_HEADER lines = filter is_HEADER (filter is_retained lines)"
    by (rule filter_HEADER_retained [symmetric])
  also have "\<dots> = []" by (simp only: True filter.simps)
  finally have "filter is_HEADER lines = []" .
  with True show ?thesis by (simp add: clean_pdb_for_mkdssp_eq ensure_end_def)
next
  case False
  then show ?thesis by (simp add: clean_pdb_for_mkdssp_eq ensure_end_def)
qed

lemma is_coordinate_take:
  "is_coordinate l \<longleftrightarrow> take 6 l = ''ATOM  '' \<or> take 6 l = ''HETATM''"
  by (simp add: is_coordinate_def startswith_def eval_nat_numeral)

lemma startswith_ATOM_take: "startswith l ''ATOM'' \<longleftrightarrow> take 4 l = ''ATOM''"
  by (simp add: startswith_def eval_nat_numeral)

subsection \<open>Files and lines\<close>

text \<open>
  Reading back what \<open>writelines\<close> wrote returns the list written when every line of
  it is terminated. The minimal cleaners write the synthesized \<open>HEADER\<close>, the
  coordinate lines as read and the synthesized \<open>END\<close>; so the lines of their output
  file are the list \<open>cleaned_lines\<close> whenever the coordinate lines kept are
  terminated, that is, unless the last line of the input is a coordinate line without
  a newline.
\<close>

lemma split_lines_append:
  "CHR 0x0A \<notin> set l \<Longrightarrow>
     split_lines cur (l @ CHR 0x0A # rest) = (cur @ l @ [CHR 0x0A]) # split_lines [] rest"
  by (induction l arbitrary: cur) auto

lemma readlines_writelines:
  "list_all terminated ls \<Longrightarrow> readlines (writelines ls) = ls"
proof (induction ls)
  case Nil
  then show ?case by (simp add: readlines_def writelines_def)
next
  case (Cons l ls)
  then have t: "terminated l" and r: "split_lines [] (concat ls) = ls"
    by (simp_all add: readlines_def writelines_def)
  from t obtain b where l: "l = b @ [CHR 0x0A]" and b: "CHR 0x0A \<notin> set b"
    unfolding terminated_def by (metis append_butlast_last_id)
  show ?case
    using split_lines_append [OF b, of "[]" "concat ls"] r
    by (simp add: readlines_def writelines_def l)
qed

lemma terminated_literals [simp]: "terminated HEADER_LINE" "terminated END_LINE"
  by (simp_all add: terminated_def HEADER_LINE_def END_LINE_def)

lemma minimal_file_lines:
  assumes "clean_pdb_for_dssp lines = Inr out \<or> clean_pdb_minimal lines = Inr out"
    and "list_all terminated (filter is_coordinate lines)"
  shows "readlines (writelines out) = out"
proof -
  from assms(1) have "out = HEADER_LINE # filter is_coordinate lines @ [END_LINE]"
    by (auto simp: clean_pdb_for_dssp_eq clean_pdb_minimal_eq split: if_splits)
  with assms(2) have "list_all terminated out" by simp
  then show ?thesis by (rule readlines_writelines)
qed

subsection \<open>Minimal mode on a file whose last coordinate line has no newline\<close>

text \<open>
  Claim C1, evaluated where the code departs from it. The input file holds one
  coordinate line and no final newline. Both minimal cleaners succeed, and
  \<open>writelines\<close> puts the synthesized \<open>END\<close> on the end of that line: the
  output file has two lines, the \<open>HEADER\<close> and a coordinate line that ends in
  \<open>END\<close>. No line of it begins with \<open>END\<close>, its last line is a coordinate record,
  and it is not a Sanitized Document, although nothing failed.
\<close>

theorem minimal_unterminated_line_no_END_record:
  "readlines ''ATOM      1  N   MET A   1'' = [''ATOM      1  N   MET A   1'']
   \<and> is_coordinate ''ATOM      1  N   MET A   1''
   \<and> clean_pdb_for_dssp_file ''ATOM      1  N   MET A   1'' = Inr (HEADER_LINE @ ''ATOM      1  N   MET A   1'' @ END_LINE)
   \<and> clean_pdb_minimal_file ''ATOM      1  N   MET A   1'' = Inr (HEADER_LINE @ ''ATOM      1  N   MET A   1'' @ END_LINE)
   \<and> readlines (HEADER_LINE @ ''ATOM      1  N   MET A   1'' @ END_LINE) = [HEADER_LINE, ''ATOM      1  N   MET A   1'' @ END_LINE]
   \<and> list_all (\<lambda>l. \<not> startswith l ''END'') [HEADER_LINE, ''ATOM      1  N   MET A   1'' @ END_LINE]
   \<and> is_coordinate (last [HEADER_LINE, ''ATOM      1  N   MET A   1'' @ END_LINE])
   \<and> \<not> sanitized_document [HEADER_LINE, ''ATOM      1  N   MET A   1'' @ END_LINE]"
  by (simp add: readlines_def writelines_def clean_pdb_for_dssp_file_def clean_pdb_minimal_file_def
      clean_pdb_for_dssp_def clean_pdb_minimal_def is_coordinate_def sanitized_document_def
      is_END_def startswith_def HEADER_LINE_def END_LINE_def)

text \<open>
  Claim C3, evaluated where the code departs from it. On the same input the first
  pass writes the \<open>HEADER\<close> and the coordinate line with \<open>END\<close> on its end. The second
  pass reads that file, keeps the glued line as a coordinate line and appends a new
  \<open>END\<close>: its output has three lines and differs from the output of the first pass.
\<close>

theorem minimal_second_pass_differs:
  "clean_pdb_for_dssp_file ''ATOM      1  N   MET A   1'' = Inr (HEADER_LINE @ ''ATOM      1  N   MET A   1'' @ END_LINE)
   \<and> clean_pdb_for_dssp_file (HEADER_LINE @ ''ATOM      1  N   MET A   1'' @ END_LINE)
       = Inr (HEADER_LINE @ ''ATOM      1  N   MET A   1'' @ END_LINE @ END_LINE)
   \<and> clean_pdb_minimal_file ''ATOM      1  N   MET A   1'' = Inr (HEADER_LINE @ ''ATOM      1  N   MET A   1'' @ END_LINE)
   \<and> clean_pdb_minimal_file (HEADER_LINE @ ''ATOM      1  N   MET A   1'' @ END_LINE)
       = Inr (HEADER_LINE @ ''ATOM      1  N   MET A   1'' @ END_LINE @ END_LINE)
   \<and> HEADER_LINE @ ''ATOM      1  N   MET A   1'' @ END_LINE @ END_LINE \<noteq> HEADER_LINE @ ''ATOM      1  N   MET A   1'' @ END_LINE
   \<and> readlines (HEADER_LINE @ ''ATOM      1  N   MET A   1'' @ END_LINE @ END_LINE)
       = [HEADER_LINE, ''ATOM      1  N   MET A   1'' @ END_LINE, END_LINE]"
  by (simp add: readlines_def writelines_def clean_pdb_for_dssp_file_def clean_pdb_minimal_file_def
      clean_pdb_for_dssp_def clean_pdb_minimal_def startswith_def HEADER_LINE_def END_LINE_def)


subsection \<open>The failure on no coordinates\<close>

text \<open>
  Claim C2 (as amended). On an input without coordinate records both minimal cleaners
  raise \<open>ValueError\<close>. The permissive filter has no such check and does not fail
  there: it returns a non-empty document without coordinate records whose last line
  begins with \<open>END\<close>, and that is the synthesized \<open>HEADER\<close> followed by the
  synthesized \<open>END\<close> when no line is retained.
\<close>

theorem no_coordinate_data:
  "\<forall>l \<in> set lines. \<not> is_coordinate l \<Longrightarrow>
     clean_pdb_for_dssp lines = Inl (ValueError ''PDB file contains no ATOM records!'')
     \<and> clean_pdb_minimal lines = Inl (ValueError ''No ATOM records found in PDB file!'')
     \<and> clean_pdb_for_mkdssp lines \<noteq> []
     \<and> filter is_coordinate (clean_pdb_for_mkdssp lines) = []
     \<and> startswith (last (clean_pdb_for_mkdssp lines)) ''END''
     \<and> (filter is_retained lines = [] \<longrightarrow> clean_pdb_for_mkdssp lines = [HEADER_LINE, END_LINE])"
proof -
  assume a: "\<forall>l \<in> set lines. \<not> is_coordinate l"
  then have none: "filter is_coordinate lines = []" by (simp add: filter_empty_conv)
  have "filter is_HEADER lines = filter is_HEADER (filter is_retained lines)" by simp
  then have e: "filter is_retained lines = [] \<Longrightarrow> filter is_HEADER lines = []"
    by (simp only: filter.simps)
  show ?thesis
    using none e by (auto simp: clean_pdb_for_dssp_eq clean_pdb_minimal_eq clean_pdb_for_mkdssp_shape)
qed

theorem no_coordinate_data_witness:
  "list_all (\<lambda>l. \<not> is_coordinate l) [''REMARK   1 NO ATOMS'' @ [CHR 0x0A], ''TER'' @ [CHR 0x0A]]
   \<and> clean_pdb_for_dssp [''REMARK   1 NO ATOMS'' @ [CHR 0x0A], ''TER'' @ [CHR 0x0A]]
       = Inl (ValueError ''PDB file contains no ATOM records!'')
   \<and> clean_pdb_minimal [''REMARK   1 NO ATOMS'' @ [CHR 0x0A], ''TER'' @ [CHR 0x0A]]
       = Inl (ValueError ''No ATOM records found in PDB file!'')
   \<and> filter is_coordinate (clean_pdb_for_mkdssp [''REMARK   1 NO ATOMS'' @ [CHR 0x0A], ''TER'' @ [CHR 0x0A]]) = []
   \<and> startswith (last (clean_pdb_for_mkdssp [''REMARK   1 NO ATOMS'' @ [CHR 0x0A], ''TER'' @ [CHR 0x0A]])) ''END''"
proof -
  have h: "\<forall>l \<in> set [''REMARK   1 NO ATOMS'' @ [CHR 0x0A], ''TER'' @ [CHR 0x0A]]. \<not> is_coordinate l"
    by (simp add: is_coordinate_def startswith_def)
  from h no_coordinate_data [OF h] show ?thesis by (simp add: list_all_iff)
qed

text \<open>
  Claim C2 as stated fails for the permissive filter: on a file holding one \<open>REMARK\<close>
  line and no coordinate record it returns a two-line document.
\<close>

theorem permissive_accepts_no_coordinates:
  "filter is_coordinate [''REMARK   1 NO ATOMS'' @ [CHR 0x0A]] = []
   \<and> clean_pdb_for_mkdssp [''REMARK   1 NO ATOMS'' @ [CHR 0x0A]] = [HEADER_LINE, END_LINE]"
  by (simp add: clean_pdb_for_mkdssp_def ensure_header_def ensure_end_def
      is_coordinate_def HEADER_LINE_def startswith_def)

subsection \<open>Minimal mode\<close>

text \<open>
  Claim C10. The result of a minimal cleaner depends only on the coordinate lines:
  two inputs with the same subsequence of coordinate lines give the same result, the
  same document or the same error.
\<close>

theorem minimal_depends_only_on_coordinates:
  "filter is_coordinate xs = filter is_coordinate ys \<Longrightarrow>
     clean_pdb_for_dssp xs = clean_pdb_for_dssp ys \<and> clean_pdb_minimal xs = clean_pdb_minimal ys"
  by (simp add: clean_pdb_for_dssp_eq clean_pdb_minimal_eq)

theorem minimal_depends_only_on_coordinates_witness:
  "filter is_coordinate [''TITLE     A'' @ [CHR 0x0A], ''ATOM      1  N   MET A   1'' @ [CHR 0x0A]]
     = filter is_coordinate [''ATOM      1  N   MET A   1'' @ [CHR 0x0A], ''END'' @ [CHR 0x0A], ''ATOMIC'']
   \<and> clean_pdb_for_dssp [''TITLE     A'' @ [CHR 0x0A], ''ATOM      1  N   MET A   1'' @ [CHR 0x0A]]
     = clean_pdb_for_dssp [''ATOM      1  N   MET A   1'' @ [CHR 0x0A], ''END'' @ [CHR 0x0A], ''ATOMIC'']
   \<and> clean_pdb_minimal [''TITLE     A'' @ [CHR 0x0A], ''ATOM      1  N   MET A   1'' @ [CHR 0x0A]]
     = clean_pdb_minimal [''ATOM      1  N   MET A   1'' @ [CHR 0x0A], ''END'' @ [CHR 0x0A], ''ATOMIC'']"
proof -
  have h: "filter is_coordinate [''TITLE     A'' @ [CHR 0x0A], ''ATOM      1  N   MET A   1'' @ [CHR 0x0A]]
     = filter is_coordinate [''ATOM      1  N   MET A   1'' @ [CHR 0x0A], ''END'' @ [CHR 0x0A], ''ATOMIC'']"
    by (simp add: is_coordinate_def startswith_def)
  from h minimal_depends_only_on_coordinates [OF h] show ?thesis by blast
qed

subsection \<open>Permissive mode\<close>

text \<open>
  Claim C5. The loop of the permissive filter collects exactly the retained lines of
  the input, in their order and with their multiplicity; the output is that list,
  with at most the synthesized \<open>HEADER\<close> in front and at most the synthesized \<open>END\<close>
  behind.
\<close>

theorem permissive_preserves_order:
  "fst (filter_records lines ([], False)) = filter is_retained lines
   \<and> (\<exists>pre post. clean_pdb_for_mkdssp lines = pre @ filter is_retained lines @ post
         \<and> (pre = [] \<or> pre = [HEADER_LINE]) \<and> (post = [] \<or> post = [END_LINE]))"
proof (intro conjI)
  show "fst (filter_records lines ([], False)) = filter is_retained lines"
    by (simp add: filter_records_filter)
next
  let ?pre = "if filter is_HEADER lines = [] then [HEADER_LINE] else []"
  let ?post = "if filter is_retained lines \<noteq> [] \<and> startswith (last (filter is_retained lines)) ''END''
               then [] else [END_LINE]"
  have "clean_pdb_for_mkdssp lines = ?pre @ filter is_retained lines @ ?post"
    by (rule clean_pdb_for_mkdssp_shape)
  moreover have "?pre = [] \<or> ?pre = [HEADER_LINE]" by simp
  moreover have "?post = [] \<or> ?post = [END_LINE]" by simp
  ultimately show "\<exists>pre post. clean_pdb_for_mkdssp lines = pre @ filter is_retained lines @ post
         \<and> (pre = [] \<or> pre = [HEADER_LINE]) \<and> (post = [] \<or> post = [END_LINE])"
    by blast
qed

theorem permissive_preserves_order_witness:
  "fst (filter_records [''CRYST1   1.0'' @ [CHR 0x0A], ''REMARK   2'' @ [CHR 0x0A], ''ATOM      1  N   MET A   1'' @ [CHR 0x0A], ''TER'' @ [CHR 0x0A]] ([], False))
     = [''CRYST1   1.0'' @ [CHR 0x0A], ''ATOM      1  N   MET A   1'' @ [CHR 0x0A], ''TER'' @ [CHR 0x0A]]
   \<and> clean_pdb_for_mkdssp [''CRYST1   1.0'' @ [CHR 0x0A], ''REMARK   2'' @ [CHR 0x0A], ''ATOM      1  N   MET A   1'' @ [CHR 0x0A], ''TER'' @ [CHR 0x0A]]
     = [HEADER_LINE] @ [''CRYST1   1.0'' @ [CHR 0x0A], ''ATOM      1  N   MET A   1'' @ [CHR 0x0A], ''TER'' @ [CHR 0x0A]] @ [END_LINE]"
  using permissive_preserves_order [of "[''CRYST1   1.0'' @ [CHR 0x0A], ''REMARK   2'' @ [CHR 0x0A], ''ATOM      1  N   MET A   1'' @ [CHR 0x0A], ''TER'' @ [CHR 0x0A]]"]
  by (simp add: clean_pdb_for_mkdssp_def ensure_header_def ensure_end_def is_retained_def
      startswith_def)

text \<open>
  Claim C6. The permissive filter appends the synthesized \<open>END\<close> exactly when no
  line is retained or the last retained line does not begin with \<open>END\<close>. So when the
  last retained line is an \<open>END\<close> record nothing is appended and that record stays
  last; and when the synthesized \<open>END\<close> is appended, the last retained line is not an
  \<open>END\<close> record.
\<close>

theorem permissive_end_not_duplicated:
  "clean_pdb_for_mkdssp lines =
     (if filter is_HEADER lines = [] then [HEADER_LINE] else []) @ filter is_retained lines
       @ (if filter is_retained lines \<noteq> [] \<and> startswith (last (filter is_retained lines)) ''END''
          then [] else [END_LINE])
   \<and> (filter is_retained lines \<noteq> [] \<and> is_END (last (filter is_retained lines)) \<longrightarrow>
        clean_pdb_for_mkdssp lines
          = (if filter is_HEADER lines = [] then [HEADER_LINE] else []) @ filter is_retained lines
        \<and> last (clean_pdb_for_mkdssp lines) = last (filter is_retained lines))
   \<and> (clean_pdb_for_mkdssp lines
          = (if filter is_HEADER lines = [] then [HEADER_LINE] else []) @ filter is_retained lines @ [END_LINE]
        \<longrightarrow> filter is_retained lines = [] \<or> \<not> is_END (last (filter is_retained lines)))"
  by (auto simp: clean_pdb_for_mkdssp_shape is_END_def)

theorem permissive_end_not_duplicated_witness:
  "is_END (last (filter is_retained [''ATOM      1  N   MET A   1'' @ [CHR 0x0A], ''REMARK   2'' @ [CHR 0x0A], ''END'' @ [CHR 0x0A]]))
   \<and> clean_pdb_for_mkdssp [''ATOM      1  N   MET A   1'' @ [CHR 0x0A], ''REMARK   2'' @ [CHR 0x0A], ''END'' @ [CHR 0x0A]]
       = [HEADER_LINE, ''ATOM      1  N   MET A   1'' @ [CHR 0x0A], ''END'' @ [CHR 0x0A]]
   \<and> clean_pdb_for_mkdssp [''ATOM      1  N   MET A   1'' @ [CHR 0x0A], ''REMARK   2'' @ [CHR 0x0A]] = [HEADER_LINE, ''ATOM      1  N   MET A   1'' @ [CHR 0x0A], END_LINE]"
  using permissive_end_not_duplicated [of "[''ATOM      1  N   MET A   1'' @ [CHR 0x0A], ''REMARK   2'' @ [CHR 0x0A], ''END'' @ [CHR 0x0A]]"]
        permissive_end_not_duplicated [of "[''ATOM      1  N   MET A   1'' @ [CHR 0x0A], ''REMARK   2'' @ [CHR 0x0A]]"]
  by (simp add: is_retained_def is_HEADER_def is_END_def startswith_def)

text \<open>
  Claim C8. A line is in the output of a minimal cleaner iff it is the synthesized
  \<open>HEADER\<close>, the synthesized \<open>END\<close>, or a line of the input whose first six
  characters are \<open>ATOM\<close> and two spaces, or \<open>HETATM\<close>. The permissive filter keeps
  every line whose first four characters are \<open>ATOM\<close>. Hence a line that begins with
  \<open>ATOM\<close> and does not go on with two spaces, such as one beginning \<open>ATOMIC\<close>, is
  dropped by minimal mode and kept by permissive mode.
\<close>

theorem coordinate_prefix_minimal_vs_permissive:
  "((clean_pdb_for_dssp lines = Inr out \<or> clean_pdb_minimal lines = Inr out) \<longrightarrow>
      (l \<in> set out \<longleftrightarrow> l = HEADER_LINE \<or> l = END_LINE
         \<or> (l \<in> set lines \<and> (take 6 l = ''ATOM  '' \<or> take 6 l = ''HETATM''))))
   \<and> (l \<in> set lines \<and> take 4 l = ''ATOM'' \<longrightarrow> l \<in> set (clean_pdb_for_mkdssp lines))
   \<and> (l \<in> set lines \<and> take 4 l = ''ATOM'' \<and> take 6 l \<noteq> ''ATOM  '' \<longrightarrow>
        l \<in> set (clean_pdb_for_mkdssp lines)
        \<and> (\<forall>out. clean_pdb_for_dssp lines = Inr out \<or> clean_pdb_minimal lines = Inr out \<longrightarrow> l \<notin> set out))"
proof (intro conjI impI)
  assume "clean_pdb_for_dssp lines = Inr out \<or> clean_pdb_minimal lines = Inr out"
  then have "out = HEADER_LINE # filter is_coordinate lines @ [END_LINE]"
    by (auto simp: clean_pdb_for_dssp_eq clean_pdb_minimal_eq split: if_splits)
  then show "l \<in> set out \<longleftrightarrow> l = HEADER_LINE \<or> l = END_LINE
         \<or> (l \<in> set lines \<and> (take 6 l = ''ATOM  '' \<or> take 6 l = ''HETATM''))"
    by (auto simp: is_coordinate_take)
next
  assume "l \<in> set lines \<and> take 4 l = ''ATOM''"
  then have "l \<in> set lines" "is_retained l"
    by (simp_all add: is_retained_def startswith_ATOM_take)
  then show "l \<in> set (clean_pdb_for_mkdssp lines)"
    by (simp add: clean_pdb_for_mkdssp_shape)
next
  assume "l \<in> set lines \<and> take 4 l = ''ATOM'' \<and> take 6 l \<noteq> ''ATOM  ''"
  then have "l \<in> set lines" "is_retained l"
    by (simp_all add: is_retained_def startswith_ATOM_take)
  then show "l \<in> set (clean_pdb_for_mkdssp lines)"
    by (simp add: clean_pdb_for_mkdssp_shape)
next
  assume a: "l \<in> set lines \<and> take 4 l = ''ATOM'' \<and> take 6 l \<noteq> ''ATOM  ''"
  then have "startswith l ''ATOM''" by (simp add: startswith_ATOM_take)
  then obtain s where l: "l = ''ATOM'' @ s" by (auto dest: startswith_split)
  have "take 6 l \<noteq> ''HETATM''" using l by (simp add: eval_nat_numeral)
  with a have nc: "\<not> is_coordinate l" by (simp add: is_coordinate_take)
  have "l \<noteq> HEADER_LINE" "l \<noteq> END_LINE" using l by (auto simp: HEADER_LINE_def END_LINE_def)
  with nc show "\<forall>out. clean_pdb_for_dssp lines = Inr out \<or> clean_pdb_minimal lines = Inr out \<longrightarrow> l \<notin> set out"
    by (auto simp: clean_pdb_for_dssp_eq clean_pdb_minimal_eq split: if_splits)
qed

theorem coordinate_prefix_minimal_vs_permissive_witness:
  "take 4 (''ATOMIC MASS'' @ [CHR 0x0A]) = ''ATOM''
   \<and> take 6 (''ATOMIC MASS'' @ [CHR 0x0A]) \<noteq> ''ATOM  ''
   \<and> clean_pdb_for_dssp [''ATOMIC MASS'' @ [CHR 0x0A], ''ATOM      1  N   MET A   1'' @ [CHR 0x0A]] = Inr [HEADER_LINE, ''ATOM      1  N   MET A   1'' @ [CHR 0x0A], END_LINE]
   \<and> clean_pdb_minimal [''ATOMIC MASS'' @ [CHR 0x0A], ''ATOM      1  N   MET A   1'' @ [CHR 0x0A]] = Inr [HEADER_LINE, ''ATOM      1  N   MET A   1'' @ [CHR 0x0A], END_LINE]
   \<and> ''ATOMIC MASS'' @ [CHR 0x0A] \<notin> set [HEADER_LINE, ''ATOM      1  N   MET A   1'' @ [CHR 0x0A], END_LINE]
   \<and> ''ATOMIC MASS'' @ [CHR 0x0A] \<in> set (clean_pdb_for_mkdssp [''ATOMIC MASS'' @ [CHR 0x0A], ''ATOM      1  N   MET A   1'' @ [CHR 0x0A]])
   \<and> clean_pdb_for_mkdssp [''ATOMIC MASS'' @ [CHR 0x0A], ''ATOM      1  N   MET A   1'' @ [CHR 0x0A]]
       = [HEADER_LINE, ''ATOMIC MASS'' @ [CHR 0x0A], ''ATOM      1  N   MET A   1'' @ [CHR 0x0A], END_LINE]"
  using coordinate_prefix_minimal_vs_permissive [of "[''ATOMIC MASS'' @ [CHR 0x0A], ''ATOM      1  N   MET A   1'' @ [CHR 0x0A]]" "[HEADER_LINE, ''ATOM      1  N   MET A   1'' @ [CHR 0x0A], END_LINE]"
              "''ATOMIC MASS'' @ [CHR 0x0A]"]
  by (simp add: clean_pdb_for_dssp_def clean_pdb_minimal_def clean_pdb_for_mkdssp_def
      ensure_header_def ensure_end_def HEADER_LINE_def END_LINE_def startswith_def)

text \<open>
  Claim C9. When the last retained line begins with \<open>ENDMDL\<close>, the test for a
  trailing \<open>END\<close> succeeds on it: nothing is appended, and the last line of the
  output is that \<open>ENDMDL\<close> line, which is not an \<open>END\<close> record.
\<close>

theorem permissive_trailing_ENDMDL:
  "filter is_retained lines \<noteq> [] \<Longrightarrow> startswith (last (filter is_retained lines)) ''ENDMDL'' \<Longrightarrow>
     clean_pdb_for_mkdssp lines
       = (if filter is_HEADER lines = [] then [HEADER_LINE] else []) @ filter is_retained lines
     \<and> last (clean_pdb_for_mkdssp lines) = last (filter is_retained lines)
     \<and> startswith (last (clean_pdb_for_mkdssp lines)) ''ENDMDL''
     \<and> \<not> is_END (last (clean_pdb_for_mkdssp lines))"
  by (simp add: clean_pdb_for_mkdssp_shape is_END_def ENDMDL_END)

theorem permissive_trailing_ENDMDL_witness:
  "filter is_retained [''MODEL        1'' @ [CHR 0x0A], ''ATOM      1  N   MET A   1'' @ [CHR 0x0A], ''ENDMDL'' @ [CHR 0x0A]] \<noteq> []
   \<and> startswith (last (filter is_retained [''MODEL        1'' @ [CHR 0x0A], ''ATOM      1  N   MET A   1'' @ [CHR 0x0A], ''ENDMDL'' @ [CHR 0x0A]])) ''ENDMDL''
   \<and> clean_pdb_for_mkdssp [''MODEL        1'' @ [CHR 0x0A], ''ATOM      1  N   MET A   1'' @ [CHR 0x0A], ''ENDMDL'' @ [CHR 0x0A]]
       = [HEADER_LINE, ''MODEL        1'' @ [CHR 0x0A], ''ATOM      1  N   MET A   1'' @ [CHR 0x0A], ''ENDMDL'' @ [CHR 0x0A]]
   \<and> last (clean_pdb_for_mkdssp [''MODEL        1'' @ [CHR 0x0A], ''ATOM      1  N   MET A   1'' @ [CHR 0x0A], ''ENDMDL'' @ [CHR 0x0A]])
       = ''ENDMDL'' @ [CHR 0x0A]"
proof -
  have h1: "filter is_retained [''MODEL        1'' @ [CHR 0x0A], ''ATOM      1  N   MET A   1'' @ [CHR 0x0A], ''ENDMDL'' @ [CHR 0x0A]] \<noteq> []"
    by (simp add: is_retained_def startswith_def)
  have h2: "startswith (last (filter is_retained [''MODEL        1'' @ [CHR 0x0A], ''ATOM      1  N   MET A   1'' @ [CHR 0x0A], ''ENDMDL'' @ [CHR 0x0A]])) ''ENDMDL''"
    by (simp add: is_retained_def startswith_def)
  from h1 h2 permissive_trailing_ENDMDL [OF h1 h2] show ?thesis
    by (simp add: is_retained_def is_HEADER_def startswith_def)
qed

subsection \<open>The batch loop\<close>

lemma process_file_errors:
  "errors (process_file f b) =
     errors b @ (case clean_pdb_for_dssp (getbuffer f) of Inl e \<Rightarrow> [(name f, e)] | Inr y \<Rightarrow> [])"
  by (simp add: process_file_def Let_def split: sum.splits)

lemma process_file_count:
  "processed_count (process_file f b) =
     processed_count b + (if isl (clean_pdb_for_dssp (getbuffer f)) then 0 else 1)"
  by (simp add: process_file_def Let_def split: sum.splits)

lemma process_file_input_dir:
  "input_dir (process_file f b) =
     (case clean_pdb_for_dssp (getbuffer f) of
        Inl e \<Rightarrow> input_dir b | Inr y \<Rightarrow> (input_dir b)(name f \<mapsto> y))"
  by (simp add: process_file_def Let_def split: sum.splits)

lemma process_files_errors:
  "errors (process_files fs b) =
     errors b @ map (\<lambda>f. (name f, projl (clean_pdb_for_dssp (getbuffer f))))
                  (filter (\<lambda>f. isl (clean_pdb_for_dssp (getbuffer f))) fs)"
  by (induction fs arbitrary: b) (auto simp: process_file_errors split: sum.splits)

lemma process_files_count:
  "processed_count (process_files fs b) =
     processed_count b + length (filter (\<lambda>f. \<not> isl (clean_pdb_for_dssp (getbuffer f))) fs)"
  by (induction fs arbitrary: b) (auto simp: process_file_count)

lemma process_files_dom:
  "dom (input_dir (process_files fs b)) =
     dom (input_dir b) \<union> name ` {f \<in> set fs. \<not> isl (clean_pdb_for_dssp (getbuffer f))}"
  by (induction fs arbitrary: b) (auto simp: process_file_input_dir split: sum.splits)

lemma process_files_content:
  "input_dir (process_files fs b) n = Some y \<Longrightarrow>
     input_dir b n = Some y \<or> (\<exists>f \<in> set fs. name f = n \<and> clean_pdb_for_dssp (getbuffer f) = Inr y)"
proof (induction fs arbitrary: b)
  case Nil
  then show ?case by simp
next
  case (Cons f fs)
  from Cons.IH [OF Cons.prems [simplified]]
  show ?case by (auto simp: process_file_input_dir split: sum.splits if_splits)
qed

text \<open>
  Claim C7. The loop goes through every uploaded file: each file whose cleaning raises
  is reported once, in upload order, and the loop continues; each file whose cleaning
  succeeds is counted and its name is in \<open>input_dir\<close>, wherever it stands among the
  failures. Every file of \<open>input_dir\<close>, the directory handed to \<open>calc_all\<close>, is the
  cleaned content of an upload that succeeded, and with distinct file names no failing
  file has an entry there. When every file fails the run stops before the
  configuration is parsed and before \<open>calc_all\<close>; when some file succeeds and the
  configuration parses, \<open>calc_all\<close> receives \<open>input_dir\<close>.
\<close>

theorem batch_failures_isolated:
  "errors (process_files files fresh_dirs)
     = map (\<lambda>f. (name f, projl (clean_pdb_for_dssp (getbuffer f))))
         (filter (\<lambda>f. isl (clean_pdb_for_dssp (getbuffer f))) files)
   \<and> processed_count (process_files files fresh_dirs)
     = length (filter (\<lambda>f. \<not> isl (clean_pdb_for_dssp (getbuffer f))) files)
   \<and> dom (input_dir (process_files files fresh_dirs))
     = name ` {f \<in> set files. \<not> isl (clean_pdb_for_dssp (getbuffer f))}
   \<and> (\<forall>n y. input_dir (process_files files fresh_dirs) n = Some y \<longrightarrow>
        (\<exists>f \<in> set files. name f = n \<and> clean_pdb_for_dssp (getbuffer f) = Inr y))
   \<and> (distinct (map name files) \<longrightarrow>
        (\<forall>f \<in> set files. isl (clean_pdb_for_dssp (getbuffer f)) \<longrightarrow>
           name f \<notin> dom (input_dir (process_files files fresh_dirs))))
   \<and> ((\<forall>f \<in> set files. isl (clean_pdb_for_dssp (getbuffer f))) \<longrightarrow>
        run_analysis files config = Stopped (errors (process_files files fresh_dirs)))
   \<and> ((\<exists>f \<in> set files. \<not> isl (clean_pdb_for_dssp (getbuffer f))) \<longrightarrow>
        run_analysis files (Some parsed)
          = CalcAll (input_dir (process_files files fresh_dirs)) parsed
              (errors (process_files files fresh_dirs)))"
proof (intro conjI)
  show "errors (process_files files fresh_dirs)
     = map (\<lambda>f. (name f, projl (clean_pdb_for_dssp (getbuffer f))))
         (filter (\<lambda>f. isl (clean_pdb_for_dssp (getbuffer f))) files)"
    by (simp add: process_files_errors fresh_dirs_def)
  show cnt: "processed_count (process_files files fresh_dirs)
     = length (filter (\<lambda>f. \<not> isl (clean_pdb_for_dssp (getbuffer f))) files)"
    by (simp add: process_files_count fresh_dirs_def)
  show dm: "dom (input_dir (process_files files fresh_dirs))
     = name ` {f \<in> set files. \<not> isl (clean_pdb_for_dssp (getbuffer f))}"
    by (simp add: process_files_dom fresh_dirs_def)
  show "\<forall>n y. input_dir (process_files files fresh_dirs) n = Some y \<longrightarrow>
        (\<exists>f \<in> set files. name f = n \<and> clean_pdb_for_dssp (getbuffer f) = Inr y)"
    using process_files_content [of files fresh_dirs] by (auto simp: fresh_dirs_def)
  show "distinct (map name files) \<longrightarrow>
        (\<forall>f \<in> set files. isl (clean_pdb_for_dssp (getbuffer f)) \<longrightarrow>
           name f \<notin> dom (input_dir (process_files files fresh_dirs)))"
    unfolding dm by (auto simp: distinct_map inj_on_def)
  show "(\<forall>f \<in> set files. isl (clean_pdb_for_dssp (getbuffer f))) \<longrightarrow>
        run_analysis files config = Stopped (errors (process_files files fresh_dirs))"
    by (simp add: run_analysis_def Let_def cnt filter_empty_conv)
  show "(\<exists>f \<in> set files. \<not> isl (clean_pdb_for_dssp (getbuffer f))) \<longrightarrow>
        run_analysis files (Some parsed)
          = CalcAll (input_dir (process_files files fresh_dirs)) parsed
              (errors (process_files files fresh_dirs))"
    by (auto simp: run_analysis_def Let_def cnt filter_empty_conv)
qed

theorem batch_failures_isolated_witness:
  "errors (process_files
      [\<lparr>name = ''a.pdb'', getbuffer = [''ATOM      1  N   MET A   1'' @ [CHR 0x0A]]\<rparr>,
       \<lparr>name = ''b.pdb'', getbuffer = []\<rparr>,
       \<lparr>name = ''c.pdb'', getbuffer = [''HETATM    2  O   HOH A   2'' @ [CHR 0x0A]]\<rparr>] fresh_dirs)
     = [(''b.pdb'', ValueError ''PDB file contains no ATOM records!'')]
   \<and> processed_count (process_files
      [\<lparr>name = ''a.pdb'', getbuffer = [''ATOM      1  N   MET A   1'' @ [CHR 0x0A]]\<rparr>,
       \<lparr>name = ''b.pdb'', getbuffer = []\<rparr>,
       \<lparr>name = ''c.pdb'', getbuffer = [''HETATM    2  O   HOH A   2'' @ [CHR 0x0A]]\<rparr>] fresh_dirs) = 2
   \<and> dom (input_dir (process_files
      [\<lparr>name = ''a.pdb'', getbuffer = [''ATOM      1  N   MET A   1'' @ [CHR 0x0A]]\<rparr>,
       \<lparr>name = ''b.pdb'', getbuffer = []\<rparr>,
       \<lparr>name = ''c.pdb'', getbuffer = [''HETATM    2  O   HOH A   2'' @ [CHR 0x0A]]\<rparr>] fresh_dirs))
     = {''a.pdb'', ''c.pdb''}
   \<and> run_analysis
      [\<lparr>name = ''a.pdb'', getbuffer = [''ATOM      1  N   MET A   1'' @ [CHR 0x0A]]\<rparr>,
       \<lparr>name = ''b.pdb'', getbuffer = []\<rparr>,
       \<lparr>name = ''c.pdb'', getbuffer = [''HETATM    2  O   HOH A   2'' @ [CHR 0x0A]]\<rparr>] (Some ())
     = CalcAll (input_dir (process_files
      [\<lparr>name = ''a.pdb'', getbuffer = [''ATOM      1  N   MET A   1'' @ [CHR 0x0A]]\<rparr>,
       \<lparr>name = ''b.pdb'', getbuffer = []\<rparr>,
       \<lparr>name = ''c.pdb'', getbuffer = [''HETATM    2  O   HOH A   2'' @ [CHR 0x0A]]\<rparr>] fresh_dirs)) ()
         [(''b.pdb'', ValueError ''PDB file contains no ATOM records!'')]
   \<and> run_analysis [\<lparr>name = ''b.pdb'', getbuffer = []\<rparr>] (Some ())
     = Stopped [(''b.pdb'', ValueError ''PDB file contains no ATOM records!'')]"
  using batch_failures_isolated [of "[\<lparr>name = ''a.pdb'', getbuffer = [''ATOM      1  N   MET A   1'' @ [CHR 0x0A]]\<rparr>,
       \<lparr>name = ''b.pdb'', getbuffer = []\<rparr>,
       \<lparr>name = ''c.pdb'', getbuffer = [''HETATM    2  O   HOH A   2'' @ [CHR 0x0A]]\<rparr>]" "Some ()" "()"]
    batch_failures_isolated [of "[\<lparr>name = ''b.pdb'', getbuffer = []\<rparr>]" "Some ()" "()"]
  by (simp add: run_analysis_def process_file_def fresh_dirs_def Let_def clean_pdb_for_dssp_def
      startswith_def insert_commute)

end
